theory Spec2Isabelle
  imports Main "HOL-Library.Sublist"
begin

section \<open>The upload relay and the interactive uploader of main.go\<close>

text \<open>
  The program is plumbing between three parties: a client that posts a multipart form to
  \<^verbatim>\<open>/upload\<close>, the relay, and the pinning provider. Everything the two functions
  \<^verbatim>\<open>uploadToIPFS\<close> and \<^verbatim>\<open>cliUpload\<close> and the \<^verbatim>\<open>/upload\<close> handler obtain from
  outside (the Go standard library, the fiber context, the file system, the network) is a
  parameter of the model; the control flow, the literals and the formatting are those of
  main.go. Outbound HTTP exchanges and lines printed to the operator are returned as a log,
  so that "no outbound call" and "exactly one attempt" are statements about a value. Two
  library behaviours decide what leaves the process and are written out: the coercion of
  strings to valid UTF-8 by \<^verbatim>\<open>encoding/json\<close>, and the escaping of file names by
  \<^verbatim>\<open>mime/multipart\<close>.
\<close>

subsection \<open>Data\<close>

text \<open>A Go \<^verbatim>\<open>error\<close> value is identified with the text its \<^verbatim>\<open>Error()\<close> method returns.\<close>

type_synonym error = string

text \<open>
  An \<^verbatim>\<open>io.Reader\<close> (a \<^verbatim>\<open>multipart.File\<close>, an \<^verbatim>\<open>*os.File\<close>, a response body): the
  bytes it delivers, and the error that ends the reading when it is not a plain end of file.
\<close>

record Reader =
  rdata :: string
  rfault :: "error option"

text \<open>\<^verbatim>\<open>type PinataResponse struct { IpfsHash string `json:"IpfsHash"` }\<close>\<close>

record PinataResponse =
  IpfsHash :: string

text \<open>
  \<^verbatim>\<open>*multipart.FileHeader\<close>: the field \<^verbatim>\<open>Filename\<close>, and what the method
  \<^verbatim>\<open>Open()\<close> returns for this header.
\<close>

record FileHeader =
  Filename :: string
  Open :: "error + Reader"

text \<open>
  The body that a \<^verbatim>\<open>multipart.Writer\<close> assembles in its buffer is kept as the list of
  parts created on it: one part per \<^verbatim>\<open>CreateFormFile(fieldname, filename)\<close>, holding the
  bytes copied into it.
\<close>

record Part =
  FieldName :: string
  FileName :: string
  Content :: string

record Request =
  Method :: string
  URL :: string
  Header :: "string \<rightharpoonup> string"
  ReqBody :: "Part list"

record Response =
  StatusCode :: int
  RespBody :: Reader

text \<open>
  The reply of the \<^verbatim>\<open>/upload\<close> handler: the status set on the fiber context (200 unless
  \<^verbatim>\<open>c.Status\<close> changes it) and the \<^verbatim>\<open>fiber.Map\<close> handed to \<^verbatim>\<open>c.JSON\<close>.
\<close>

record Reply =
  status :: int
  json :: "string \<rightharpoonup> string"

text \<open>The pure library functions the code calls.\<close>

record stdlib =
  TrimSpace :: "string \<Rightarrow> string"
  Base :: "string \<Rightarrow> string"
  Unmarshal :: "string \<Rightarrow> error + PinataResponse"

text \<open>
  The outcomes of the calls that reach outside the process or that the library may fail:
  \<^verbatim>\<open>os.Getenv\<close>, the content type the fresh multipart writer reports, the error (if any)
  of \<^verbatim>\<open>writer.CreateFormFile(fieldname, filename)\<close> and of
  \<^verbatim>\<open>http.NewRequest(method, url, body)\<close>, the result of \<^verbatim>\<open>client.Do\<close> and of
  \<^verbatim>\<open>os.Open\<close>.
\<close>

record world =
  Getenv :: "string \<Rightarrow> string"
  FormDataContentType :: string
  CreateFormFile :: "string \<Rightarrow> string \<Rightarrow> error option"
  NewRequest :: "string \<Rightarrow> string \<Rightarrow> error option"
  client_Do :: "Request \<Rightarrow> error + Response"
  os_Open :: "string \<Rightarrow> error + Reader"

text \<open>The part of \<^verbatim>\<open>*fiber.Ctx\<close> the handler reads: \<^verbatim>\<open>c.FormFile(key)\<close>.\<close>

record Ctx =
  FormFile :: "string \<Rightarrow> error + FileHeader"

text \<open>One outbound HTTP exchange: the request handed to \<^verbatim>\<open>client.Do\<close> and what came back.\<close>

type_synonym exchange = "Request \<times> (error + Response)"

subsection \<open>Library calls with a fixed meaning\<close>

text \<open>
  \<^verbatim>\<open>io.Copy(part, file)\<close>: the bytes that reached the part, or the error that stopped
  the copy.
\<close>

definition io_Copy :: "Reader \<Rightarrow> error + string" where
  "io_Copy r = (case rfault r of Some e \<Rightarrow> Inl e | None \<Rightarrow> Inr (rdata r))"

text \<open>\<^verbatim>\<open>io.ReadAll(r)\<close> returns the bytes read so far together with the error.\<close>

definition io_ReadAll :: "Reader \<Rightarrow> string \<times> error option" where
  "io_ReadAll r = (rdata r, rfault r)"

text \<open>\<^verbatim>\<open>fmt.Println\<close>: the operands separated by one space, then a newline.\<close>

fun fmt_Println :: "string list \<Rightarrow> string" where
  "fmt_Println [] = [CHR 0x0A]"
| "fmt_Println [x] = x @ [CHR 0x0A]"
| "fmt_Println (x # y # ys) = x @ '' '' @ fmt_Println (y # ys)"

subsection \<open>The relay\<close>

definition StatusBadRequest :: int where
  "StatusBadRequest = 400"

definition StatusInternalServerError :: int where
  "StatusInternalServerError = 500"

text \<open>
  \<^verbatim>\<open>uploadToIPFS(file, fileHeader)\<close>, lines 34 to 81. The result is the pair the Go
  function returns (an error, or the URL) and the exchanges it had with the provider. The
  error of \<^verbatim>\<open>io.ReadAll(resp.Body)\<close> is dropped by the source (\<^verbatim>\<open>body, _ :=\<close>).
\<close>

definition uploadToIPFS ::
  "stdlib \<Rightarrow> world \<Rightarrow> Reader \<Rightarrow> FileHeader \<Rightarrow> (error + string) \<times> exchange list" where
  "uploadToIPFS L W file fileHeader =
    (let pinataAPIKey = Getenv W ''PINATA_API_KEY'';
         pinataSecret = Getenv W ''PINATA_SECRET_API_KEY''
     in case CreateFormFile W ''file'' (Filename fileHeader) of
          Some err \<Rightarrow> (Inl err, [])
        | None \<Rightarrow>
     (case io_Copy file of
          Inl err \<Rightarrow> (Inl err, [])
        | Inr copied \<Rightarrow>
     (case NewRequest W ''POST'' ''https://api.pinata.cloud/pinning/pinFileToIPFS'' of
          Some err \<Rightarrow> (Inl err, [])
        | None \<Rightarrow>
     (let req = \<lparr>Method = ''POST'',
                 URL = ''https://api.pinata.cloud/pinning/pinFileToIPFS'',
                 Header = [''Content-Type'' \<mapsto> FormDataContentType W,
                           ''pinata_api_key'' \<mapsto> pinataAPIKey,
                           ''pinata_secret_api_key'' \<mapsto> pinataSecret],
                 ReqBody = [\<lparr>FieldName = ''file'', FileName = Filename fileHeader,
                             Content = copied\<rparr>]\<rparr>
      in case client_Do W req of
          Inl err \<Rightarrow> (Inl err, [(req, Inl err)])
        | Inr resp \<Rightarrow>
     (let body = fst (io_ReadAll (RespBody resp))
      in if StatusCode resp \<noteq> 200
         then (Inl (''pinata error: '' @ body), [(req, Inr resp)])
         else (case Unmarshal L body of
                 Inl err \<Rightarrow> (Inl err, [(req, Inr resp)])
               | Inr pinataRes \<Rightarrow>
                   (Inr (''https://ipfs.io/ipfs/'' @ IpfsHash pinataRes),
                    [(req, Inr resp)])))))))"

text \<open>
  The handler registered with \<^verbatim>\<open>app.Post("/upload", ...)\<close>, lines 87 to 107: the reply
  and the exchanges with the provider made while serving the request. The last return
  calls \<^verbatim>\<open>c.JSON\<close> without \<^verbatim>\<open>c.Status\<close>, so the reply keeps the context's
  default status, 200.
\<close>

definition upload_handler :: "stdlib \<Rightarrow> world \<Rightarrow> Ctx \<Rightarrow> Reply \<times> exchange list" where
  "upload_handler L W c =
    (case FormFile c ''file'' of
       Inl err \<Rightarrow>
         (\<lparr>status = StatusBadRequest, json = [''error'' \<mapsto> ''File missing'']\<rparr>, [])
     | Inr fileHeader \<Rightarrow>
    (case Open fileHeader of
       Inl err \<Rightarrow>
         (\<lparr>status = StatusInternalServerError,
           json = [''error'' \<mapsto> ''File open failed'']\<rparr>, [])
     | Inr file \<Rightarrow>
    (case uploadToIPFS L W file fileHeader of
       (Inl err, log) \<Rightarrow>
         (\<lparr>status = StatusInternalServerError, json = [''error'' \<mapsto> err]\<rparr>, log)
     | (Inr ipfsURL, log) \<Rightarrow>
         (\<lparr>status = 200, json = [''ipfs_url'' \<mapsto> ipfsURL]\<rparr>, log))))"

subsection \<open>The uploader\<close>

text \<open>What the operator and the network see of the uploader, in order.\<close>

datatype event =
  Stdout string
| HTTP Request "error + Response"

text \<open>How an iteration of the \<^verbatim>\<open>for\<close> loop ends: \<^verbatim>\<open>break\<close>, or back to the prompt.\<close>

datatype ctl = Break | Continue

definition prompt :: string where
  "prompt = ''Enter the path of the image file (or '' @ [CHR 0x27] @ ''exit'' @ [CHR 0x27]
     @ '' to quit): ''"

text \<open>
  One iteration of the loop of \<^verbatim>\<open>cliUpload\<close>, lines 116 to 170, on the line that
  \<^verbatim>\<open>reader.ReadString\<close> returned (its error is dropped by the source).
\<close>

definition cli_iteration :: "stdlib \<Rightarrow> world \<Rightarrow> string \<Rightarrow> ctl \<times> event list" where
  "cli_iteration L W line =
    (let input = TrimSpace L line
     in if input = ''exit''
        then (Break, [Stdout prompt, Stdout (fmt_Println [''Exiting CLI uploader.''])])
        else
     (case os_Open W input of
        Inl err \<Rightarrow>
          (Continue, [Stdout prompt, Stdout (fmt_Println [''Error opening file:'', err])])
      | Inr file \<Rightarrow>
     (case CreateFormFile W ''file'' (Base L input) of
        Some err \<Rightarrow>
          (Continue,
           [Stdout prompt, Stdout (fmt_Println [''Error creating form file:'', err])])
      | None \<Rightarrow>
     (case io_Copy file of
        Inl err \<Rightarrow>
          (Continue, [Stdout prompt, Stdout (fmt_Println [''Error copying file:'', err])])
      | Inr copied \<Rightarrow>
     (case NewRequest W ''POST'' ''http://localhost:3000/upload'' of
        Some err \<Rightarrow>
          (Continue,
           [Stdout prompt, Stdout (fmt_Println [''Error creating request:'', err])])
      | None \<Rightarrow>
     (let req = \<lparr>Method = ''POST'',
                 URL = ''http://localhost:3000/upload'',
                 Header = [''Content-Type'' \<mapsto> FormDataContentType W],
                 ReqBody = [\<lparr>FieldName = ''file'', FileName = Base L input,
                             Content = copied\<rparr>]\<rparr>
      in case client_Do W req of
        Inl err \<Rightarrow>
          (Continue,
           [Stdout prompt, HTTP req (Inl err),
            Stdout (fmt_Println [''Upload failed:'', err])])
      | Inr resp \<Rightarrow>
     (case io_ReadAll (RespBody resp) of
        (respBody, Some err) \<Rightarrow>
          (Continue,
           [Stdout prompt, HTTP req (Inr resp),
            Stdout (fmt_Println [''Error reading response:'', err])])
      | (respBody, None) \<Rightarrow>
          (Continue,
           [Stdout prompt, HTTP req (Inr resp),
            Stdout (fmt_Println [''Response from server:'', respBody])]))))))))"

text \<open>
  The loop \<^verbatim>\<open>for { ... }\<close> of \<^verbatim>\<open>cliUpload\<close>. Standard input is the sequence of the
  results of the successive \<^verbatim>\<open>ReadString\<close> calls (after the end of the input every
  call returns the empty string), and the outside world may differ from one iteration to
  the next. The loop has no bound: it returns \<open>Some\<close> of the events of the run when it
  leaves through \<^verbatim>\<open>break\<close>, and is \<open>None\<close> when it runs forever.
\<close>

partial_function (option) cliUpload ::
  "stdlib \<Rightarrow> (nat \<Rightarrow> world) \<Rightarrow> (nat \<Rightarrow> string) \<Rightarrow> nat \<Rightarrow> event list option" where
  "cliUpload L Ws stdin i =
    (case cli_iteration L (Ws i) (stdin i) of
       (Break, evs) \<Rightarrow> Some evs
     | (Continue, evs) \<Rightarrow>
         Option.bind (cliUpload L Ws stdin (Suc i)) (\<lambda>rest. Some (evs @ rest)))"

subsection \<open>What leaves the process\<close>

text \<open>
  \<^verbatim>\<open>c.JSON\<close> writes the \<^verbatim>\<open>fiber.Map\<close> with \<^verbatim>\<open>encoding/json\<close>, whose documentation
  says: string values encode as JSON strings coerced to valid UTF-8, replacing invalid bytes
  with the Unicode replacement rune. The encoder walks the string as
  \<^verbatim>\<open>utf8.DecodeRuneInString\<close> does: a byte below 0x80 is a rune of its own; a lead byte
  C2..DF, E0..EF or F0..F4 followed by the right number of continuation bytes (the second one
  in the narrower range that E0, ED, F0 and F4 ask for) is a rune of two, three or four bytes;
  every other byte is invalid and is replaced, one byte at a time, by U+FFFD, in UTF-8 the
  bytes EF BF BD.
\<close>

definition byte :: "char \<Rightarrow> nat" where
  "byte ch = of_char ch"

definition continuation :: "char \<Rightarrow> bool" where
  "continuation ch \<longleftrightarrow> 0x80 \<le> byte ch \<and> byte ch \<le> 0xBF"

definition second_ok :: "char \<Rightarrow> char \<Rightarrow> bool" where
  "second_ok a b \<longleftrightarrow>
     (if byte a = 0xE0 then 0xA0 \<le> byte b \<and> byte b \<le> 0xBF
      else if byte a = 0xED then 0x80 \<le> byte b \<and> byte b \<le> 0x9F
      else if byte a = 0xF0 then 0x90 \<le> byte b \<and> byte b \<le> 0xBF
      else if byte a = 0xF4 then 0x80 \<le> byte b \<and> byte b \<le> 0x8F
      else continuation b)"

text \<open>
  The number of bytes of the rune at the head of the string, and 0 where
  \<^verbatim>\<open>DecodeRuneInString\<close> reports \<^verbatim>\<open>(RuneError, 1)\<close> (or the string is empty).
\<close>

fun rune_len :: "string \<Rightarrow> nat" where
  "rune_len [] = 0"
| "rune_len (a # r) =
     (if byte a < 0x80 then 1
      else if 0xC2 \<le> byte a \<and> byte a \<le> 0xDF then
        (case r of b # _ \<Rightarrow> if second_ok a b then 2 else 0 | _ \<Rightarrow> 0)
      else if 0xE0 \<le> byte a \<and> byte a \<le> 0xEF then
        (case r of
           b # c # _ \<Rightarrow> if second_ok a b \<and> continuation c then 3 else 0
         | _ \<Rightarrow> 0)
      else if 0xF0 \<le> byte a \<and> byte a \<le> 0xF4 then
        (case r of
           b # c # d # _ \<Rightarrow>
             if second_ok a b \<and> continuation c \<and> continuation d then 4 else 0
         | _ \<Rightarrow> 0)
      else 0)"

definition replacement :: string where
  "replacement = [CHR 0xEF, CHR 0xBF, CHR 0xBD]"

text \<open>
  The string that a JSON string written by \<^verbatim>\<open>encoding/json\<close> stands for. The escapes
  the encoder uses inside the JSON text (for the quote, the backslash, control characters,
  \<^verbatim>\<open><\<close>, \<^verbatim>\<open>>\<close>, \<^verbatim>\<open>&\<close>, U+2028, U+2029, and a six-character escape for the replacement) spell
  the same string and are undone by every JSON reader; the replacement of invalid bytes is
  not.
\<close>

function json_coerce :: "string \<Rightarrow> string" where
  "json_coerce [] = []"
| "json_coerce (a # r) =
     (let n = rune_len (a # r)
      in if n = 0 then replacement @ json_coerce r
         else take n (a # r) @ json_coerce (drop n (a # r)))"
  by pat_completeness auto
termination
  by (relation "measure length") auto

text \<open>\<^verbatim>\<open>utf8.ValidString\<close>: the string is a sequence of valid runes.\<close>

function ValidString :: "string \<Rightarrow> bool" where
  "ValidString [] = True"
| "ValidString (a # r) =
     (let n = rune_len (a # r)
      in if n = 0 then False else ValidString (drop n (a # r)))"
  by pat_completeness auto
termination
  by (relation "measure length") auto

text \<open>
  The JSON object that the client of the relay reads from the reply: under each key the
  string the written JSON string stands for. The keys of this program are the ASCII
  literals \<^verbatim>\<open>error\<close> and \<^verbatim>\<open>ipfs_url\<close>, which the encoder copies.
\<close>

definition delivered :: "Reply \<Rightarrow> (string \<rightharpoonup> string)" where
  "delivered r = (\<lambda>key. map_option json_coerce (json r key))"

text \<open>
  \<^verbatim>\<open>CreateFormFile(fieldname, filename)\<close> of \<^verbatim>\<open>mime/multipart\<close> writes the header
  \<^verbatim>\<open>Content-Disposition: form-data; name="..."; filename="..."\<close> with both values passed
  through \<^verbatim>\<open>escapeQuotes\<close>: a backslash before every backslash and every double quote,
  and percent encoding for CR and LF.
\<close>

definition escape_byte :: "char \<Rightarrow> string" where
  "escape_byte ch =
     (if ch = CHR 0x5C then [CHR 0x5C, CHR 0x5C]
      else if ch = CHR 0x22 then [CHR 0x5C, CHR 0x22]
      else if ch = CHR 0x0D then ''%0D''
      else if ch = CHR 0x0A then ''%0A''
      else [ch])"

definition escapeQuotes :: "string \<Rightarrow> string" where
  "escapeQuotes s = concat (map escape_byte s)"

definition Content_Disposition :: "Part \<Rightarrow> string" where
  \<open>Content_Disposition p =
     ''form-data; name="'' @ escapeQuotes (FieldName p) @ ''"; filename="''
       @ escapeQuotes (FileName p) @ ''"''\<close>

text \<open>
  How the receiver of the header reads a quoted parameter value (RFC 822 quoted-string): a
  backslash stands for the byte that follows it. Percent signs are ordinary bytes.
\<close>

fun unquote :: "string \<Rightarrow> string" where
  "unquote [] = []"
| "unquote [a] = [a]"
| "unquote (a # b # r) = (if a = CHR 0x5C then b # unquote r else a # unquote (b # r))"

text \<open>The file name that the receiver of a part reads from its header.\<close>

definition sent_filename :: "Part \<Rightarrow> string" where
  "sent_filename p = unquote (escapeQuotes (FileName p))"

text \<open>A name with CR and LF percent-encoded and every other byte kept.\<close>

definition percent_byte :: "char \<Rightarrow> string" where
  "percent_byte ch =
     (if ch = CHR 0x0D then ''%0D'' else if ch = CHR 0x0A then ''%0A'' else [ch])"

definition percent_crlf :: "string \<Rightarrow> string" where
  "percent_crlf s = concat (map percent_byte s)"

text \<open>The requests among the events of the uploader.\<close>

fun requests :: "event list \<Rightarrow> Request list" where
  "requests [] = []"
| "requests (Stdout s # evs) = requests evs"
| "requests (HTTP req ans # evs) = req # requests evs"

subsection \<open>A stub provider, a stub library and sample requests\<close>

text \<open>
  Stand-ins on which the model is run: an ASCII-only \<^verbatim>\<open>TrimSpace\<close>, a slash-separated
  \<^verbatim>\<open>Base\<close>, a decoder that knows three bodies, a provider that gives a fixed answer to
  every request, a file system holding the single file \<^verbatim>\<open>/tmp/cat.png\<close>, and form
  contexts with and without a \<^verbatim>\<open>file\<close> field.
\<close>

definition ascii_space :: "char \<Rightarrow> bool" where
  "ascii_space ch \<longleftrightarrow>
     ch \<in> set [CHR '' '', CHR 0x09, CHR 0x0A, CHR 0x0B, CHR 0x0C, CHR 0x0D]"

definition stub_TrimSpace :: "string \<Rightarrow> string" where
  "stub_TrimSpace s = rev (dropWhile ascii_space (rev (dropWhile ascii_space s)))"

definition stub_Base :: "string \<Rightarrow> string" where
  "stub_Base p = rev (takeWhile (\<lambda>ch. ch \<noteq> CHR ''/'') (rev p))"

definition stub_Unmarshal :: "string \<Rightarrow> error + PinataResponse" where
  \<open>stub_Unmarshal body =
     (if body = ''{"IpfsHash":"Qm123"}'' then Inr \<lparr>IpfsHash = ''Qm123''\<rparr>
      else if body = ''{}'' then Inr \<lparr>IpfsHash = ''''\<rparr>
      else Inl ''unexpected end of JSON input'')\<close>

definition test_lib :: stdlib where
  "test_lib = \<lparr>TrimSpace = stub_TrimSpace, Base = stub_Base, Unmarshal = stub_Unmarshal\<rparr>"

definition cat_png :: Reader where
  "cat_png = \<lparr>rdata = ''PNG'', rfault = None\<rparr>"

definition test_world :: "(error + Response) \<Rightarrow> world" where
  "test_world answer =
     \<lparr>Getenv = (\<lambda>name. ''k-'' @ name),
      FormDataContentType = ''multipart/form-data; boundary=b0'',
      CreateFormFile = (\<lambda>fieldname filename. None),
      NewRequest = (\<lambda>method url. None),
      client_Do = (\<lambda>req. answer),
      os_Open = (\<lambda>name. if name = ''/tmp/cat.png'' then Inr cat_png
                          else Inl (''open '' @ name @ '': no such file or directory''))\<rparr>"

definition test_ctx :: "(error + Reader) \<Rightarrow> Ctx" where
  "test_ctx opened =
     \<lparr>FormFile = (\<lambda>key. if key = ''file''
                         then Inr \<lparr>Filename = ''cat.png'', Open = opened\<rparr>
                         else Inl ''there is no uploaded file associated with the given key'')\<rparr>"

definition no_file_ctx :: Ctx where
  "no_file_ctx =
     \<lparr>FormFile = (\<lambda>key. Inl ''there is no uploaded file associated with the given key'')\<rparr>"

definition answer :: "int \<Rightarrow> string \<Rightarrow> Response" where
  "answer code body = \<lparr>StatusCode = code, RespBody = \<lparr>rdata = body, rfault = None\<rparr>\<rparr>"

definition cut_short :: Response where
  "cut_short =
     \<lparr>StatusCode = 200, RespBody = \<lparr>rdata = ''{'', rfault = Some ''unexpected EOF''\<rparr>\<rparr>"

definition entered :: "string \<Rightarrow> string" where
  "entered s = s @ [CHR 0x0A]"

definition test_request :: "string \<Rightarrow> (string \<rightharpoonup> string) \<Rightarrow> Request" where
  "test_request url hdr =
     \<lparr>Method = ''POST'', URL = url, Header = hdr,
      ReqBody = [\<lparr>FieldName = ''file'', FileName = ''cat.png'', Content = ''PNG''\<rparr>]\<rparr>"

definition upload_request :: Request where
  "upload_request =
     test_request ''http://localhost:3000/upload''
       [''Content-Type'' \<mapsto> ''multipart/form-data; boundary=b0'']"

definition named_ctx :: "string \<Rightarrow> Ctx" where
  "named_ctx name =
     \<lparr>FormFile = (\<lambda>key. if key = ''file''
                         then Inr \<lparr>Filename = name, Open = Inr cat_png\<rparr>
                         else Inl ''there is no uploaded file associated with the given key'')\<rparr>"

definition open_world :: "(error + Response) \<Rightarrow> world" where
  "open_world outcome = (test_world outcome)\<lparr>os_Open := (\<lambda>name. Inr cat_png)\<rparr>"

lemmas test_defs = test_lib_def test_world_def test_ctx_def no_file_ctx_def answer_def
  cat_png_def stub_Unmarshal_def stub_Base_def stub_TrimSpace_def ascii_space_def
  entered_def test_request_def upload_request_def cut_short_def named_ctx_def
  open_world_def

lemmas relay_defs = upload_handler_def uploadToIPFS_def io_Copy_def io_ReadAll_def
  StatusBadRequest_def StatusInternalServerError_def

lemmas cli_defs = cli_iteration_def io_Copy_def io_ReadAll_def

section \<open>Properties\<close>

subsection \<open>What the relay does with the provider's answer\<close>

text \<open>
  If the log of a request holds an answer of the provider, the handler got past the form
  field, the opening and the copying of the file; the reply is then decided by the answer's
  status and by the decoder alone, and the log holds that one exchange.
\<close>

lemma uploadToIPFS_answer:
  assumes sent: "Inr resp \<in> snd ` set (snd (uploadToIPFS L W file fileHeader))"
  shows "fst (uploadToIPFS L W file fileHeader) =
           (if StatusCode resp \<noteq> 200
            then Inl (''pinata error: '' @ rdata (RespBody resp))
            else case Unmarshal L (rdata (RespBody resp)) of
                   Inl err \<Rightarrow> Inl err
                 | Inr p \<Rightarrow> Inr (''https://ipfs.io/ipfs/'' @ IpfsHash p))
         \<and> length (snd (uploadToIPFS L W file fileHeader)) = 1"
proof (cases "CreateFormFile W ''file'' (Filename fileHeader)")
  case (Some err)
  with sent show ?thesis
    by (simp add: uploadToIPFS_def)
next
  case None
  note created = this
  show ?thesis
  proof (cases "io_Copy file")
    case (Inl err)
    with sent created show ?thesis
      by (simp add: uploadToIPFS_def)
  next
    case (Inr copied)
    note copy = this
    show ?thesis
    proof (cases "NewRequest W ''POST'' ''https://api.pinata.cloud/pinning/pinFileToIPFS''")
      case (Some err)
      with sent created copy show ?thesis
        by (simp add: uploadToIPFS_def)
    next
      case None
      note built = this
      define req where "req =
        \<lparr>Method = ''POST'',
         URL = ''https://api.pinata.cloud/pinning/pinFileToIPFS'',
         Header = [''Content-Type'' \<mapsto> FormDataContentType W,
                   ''pinata_api_key'' \<mapsto> Getenv W ''PINATA_API_KEY'',
                   ''pinata_secret_api_key'' \<mapsto> Getenv W ''PINATA_SECRET_API_KEY''],
         ReqBody = [\<lparr>FieldName = ''file'', FileName = Filename fileHeader,
                     Content = copied\<rparr>]\<rparr>"
      show ?thesis
      proof (cases "client_Do W req")
        case (Inl err)
        with sent created copy built show ?thesis
          by (simp add: uploadToIPFS_def req_def)
      next
        case (Inr answered)
        with sent created copy built have "resp = answered"
          by (simp add: uploadToIPFS_def req_def Let_def split: if_splits sum.splits)
        with Inr created copy built show ?thesis
          by (simp add: uploadToIPFS_def req_def Let_def io_ReadAll_def split: sum.splits)
      qed
    qed
  qed
qed

text \<open>The same for the handler, which maps the result of \<^verbatim>\<open>uploadToIPFS\<close> to a reply.\<close>

lemma provider_answer_cases:
  assumes sent: "Inr resp \<in> snd ` set (snd (upload_handler L W c))"
  shows "fst (upload_handler L W c) =
           (if StatusCode resp \<noteq> 200
            then \<lparr>status = 500,
                  json = [''error'' \<mapsto> ''pinata error: '' @ rdata (RespBody resp)]\<rparr>
            else case Unmarshal L (rdata (RespBody resp)) of
                   Inl err \<Rightarrow> \<lparr>status = 500, json = [''error'' \<mapsto> err]\<rparr>
                 | Inr p \<Rightarrow>
                     \<lparr>status = 200,
                      json = [''ipfs_url'' \<mapsto> ''https://ipfs.io/ipfs/'' @ IpfsHash p]\<rparr>)
         \<and> length (snd (upload_handler L W c)) = 1"
proof (cases "FormFile c ''file''")
  case (Inl err)
  with sent show ?thesis
    by (simp add: upload_handler_def)
next
  case (Inr fileHeader)
  note field = this
  show ?thesis
  proof (cases "Open fileHeader")
    case (Inl err)
    with sent field show ?thesis
      by (simp add: upload_handler_def)
  next
    case (Inr opened)
    have log: "snd (upload_handler L W c) = snd (uploadToIPFS L W opened fileHeader)"
      using field Inr by (simp add: upload_handler_def split: prod.splits sum.splits)
    with sent have "Inr resp \<in> snd ` set (snd (uploadToIPFS L W opened fileHeader))"
      by simp
    from uploadToIPFS_answer[OF this] log field Inr show ?thesis
      by (simp add: upload_handler_def StatusInternalServerError_def
          split: prod.splits sum.splits)
  qed
qed

text \<open>Every request that leaves the relay carries one part: the received file.\<close>

lemma uploadToIPFS_parts:
  assumes "x \<in> set (snd (uploadToIPFS L W file fileHeader))"
  shows "map FieldName (ReqBody (fst x)) = [''file'']
         \<and> map FileName (ReqBody (fst x)) = [Filename fileHeader]"
  using assms
  by (auto simp: uploadToIPFS_def Let_def split: sum.splits option.splits if_splits)

lemma upload_handler_parts:
  assumes "FormFile c ''file'' = Inr fileHeader"
    and "x \<in> set (snd (upload_handler L W c))"
  shows "map FieldName (ReqBody (fst x)) = [''file'']
         \<and> map FileName (ReqBody (fst x)) = [Filename fileHeader]"
proof (cases "Open fileHeader")
  case (Inl err)
  with assms show ?thesis
    by (simp add: upload_handler_def)
next
  case (Inr opened)
  with assms have "x \<in> set (snd (uploadToIPFS L W opened fileHeader))"
    by (simp add: upload_handler_def split: prod.splits sum.splits)
  then show ?thesis
    by (rule uploadToIPFS_parts)
qed

subsection \<open>The loop of the uploader\<close>

text \<open>An iteration leaves the loop exactly when the trimmed line is the sentinel.\<close>

lemma cli_iteration_Break_iff:
  "fst (cli_iteration L W line) = Break \<longleftrightarrow> TrimSpace L line = ''exit''"
  by (auto simp: cli_iteration_def Let_def split: sum.splits option.splits prod.splits)

lemma cliUpload_exit:
  "TrimSpace L (stdin i) = ''exit'' \<Longrightarrow>
   cliUpload L Ws stdin i = Some [Stdout prompt, Stdout (fmt_Println [''Exiting CLI uploader.''])]"
  by (subst cliUpload.simps) (simp add: cli_iteration_def)

text \<open>
  Total correctness of the loop in one direction: a sentinel anywhere ahead in the input
  makes the loop return. Induction on the distance to that line.
\<close>

lemma cliUpload_terminates:
  "TrimSpace L (stdin (i + k)) = ''exit'' \<Longrightarrow> \<exists>t. cliUpload L Ws stdin i = Some t"
proof (induction k arbitrary: i)
  case 0
  then show ?case using cliUpload_exit[of L stdin i Ws] by simp
next
  case (Suc k)
  then have "TrimSpace L (stdin (Suc i + k)) = ''exit''" by simp
  from Suc.IH[OF this] obtain t where t: "cliUpload L Ws stdin (Suc i) = Some t" by blast
  show ?case
    by (subst cliUpload.simps) (auto simp: t split: prod.splits ctl.splits)
qed

text \<open>
  The other direction, by the induction rule of the least fixed point: a run that returns
  has read the sentinel.
\<close>

lemma cliUpload_only_exit:
  assumes run: "cliUpload L Ws stdin i = Some t"
  shows "\<exists>n\<ge>i. TrimSpace L (stdin n) = ''exit''"
proof (rule cliUpload.raw_induct
    [where P = "\<lambda>L Ws stdin i t. \<exists>n\<ge>i. TrimSpace L (stdin n) = ''exit''", OF _ run])
  fix cu :: "stdlib \<Rightarrow> (nat \<Rightarrow> world) \<Rightarrow> (nat \<Rightarrow> string) \<Rightarrow> nat \<Rightarrow> event list option"
  fix L Ws stdin i t
  assume IH: "\<And>L Ws stdin i t. cu L Ws stdin i = Some t \<Longrightarrow>
                \<exists>n\<ge>i. TrimSpace L (stdin n) = ''exit''"
  assume body: "(case cli_iteration L (Ws i) (stdin i) of
                   (Break, evs) \<Rightarrow> Some evs
                 | (Continue, evs) \<Rightarrow>
                     Option.bind (cu L Ws stdin (Suc i)) (\<lambda>rest. Some (evs @ rest))) = Some t"
  show "\<exists>n\<ge>i. TrimSpace L (stdin n) = ''exit''"
  proof (cases "TrimSpace L (stdin i) = ''exit''")
    case True
    then show ?thesis by blast
  next
    case False
    then have "fst (cli_iteration L (Ws i) (stdin i)) = Continue"
      using cli_iteration_Break_iff[of L "Ws i" "stdin i"] by (cases "fst (cli_iteration L (Ws i) (stdin i))") simp_all
    with body obtain rest where "cu L Ws stdin (Suc i) = Some rest"
      by (auto split: prod.splits ctl.splits Option.bind_splits)
    from IH[OF this] obtain n where "n \<ge> Suc i" "TrimSpace L (stdin n) = ''exit''" by blast
    then show ?thesis by (intro exI[of _ n]) simp
  qed
qed


text \<open>Every request that leaves the uploader carries one part: the file that was opened.\<close>

lemma cli_iteration_parts:
  assumes "HTTP req ans \<in> set (snd (cli_iteration L W ln))"
  shows "map FieldName (ReqBody req) = [''file'']
         \<and> map FileName (ReqBody req) = [Base L (TrimSpace L ln)]"
proof (cases "TrimSpace L ln = ''exit''")
  case True
  with assms show ?thesis
    by (simp add: cli_iteration_def)
next
  case False
  with assms show ?thesis
    unfolding cli_iteration_def Let_def
    by (auto split: sum.splits option.splits prod.splits)
qed

subsection \<open>The JSON reply and the multipart header\<close>

text \<open>Coercion leaves a valid string as it is, and copies an ASCII prefix.\<close>

lemma json_coerce_valid: "ValidString s \<Longrightarrow> json_coerce s = s"
proof (induction s rule: json_coerce.induct)
  case 1
  show ?case by simp
next
  case (2 a r)
  define n where "n = rune_len (a # r)"
  from "2.prems" have pos: "n \<noteq> 0" and rest: "ValidString (drop n (a # r))"
    by (simp_all add: n_def Let_def del: rune_len.simps split: if_splits)
  from "2.IH"(2)[OF n_def pos rest]
  have "json_coerce (drop n (a # r)) = drop n (a # r)" .
  with pos have "json_coerce (a # r) = take n (a # r) @ drop n (a # r)"
    by (simp add: n_def Let_def del: rune_len.simps)
  then show ?case
    by (simp only: append_take_drop_id)
qed

lemma json_coerce_ascii:
  "\<forall>ch\<in>set p. byte ch < 0x80 \<Longrightarrow> json_coerce (p @ s) = p @ json_coerce s"
  by (induction p) simp_all

lemma json_coerce_pinata_error:
  "json_coerce (''pinata error: '' @ s) = ''pinata error: '' @ json_coerce s"
  by (rule json_coerce_ascii) (simp add: byte_def)

text \<open>
  Reading back what \<^verbatim>\<open>escapeQuotes\<close> wrote undoes the backslashes and keeps the percent
  encoding of CR and LF.
\<close>

lemma unquote_escape_byte:
  "unquote (escape_byte ch @ s) = percent_byte ch @ unquote s"
proof (cases s)
  case Nil
  then show ?thesis
    by (simp add: escape_byte_def percent_byte_def)
next
  case (Cons b r)
  then show ?thesis
    by (simp add: escape_byte_def percent_byte_def)
qed

lemma unquote_escapeQuotes: "unquote (escapeQuotes s) = percent_crlf s"
proof (induction s)
  case Nil
  show ?case by (simp add: escapeQuotes_def percent_crlf_def)
next
  case (Cons ch s)
  have "unquote (escapeQuotes (ch # s)) = unquote (escape_byte ch @ escapeQuotes s)"
    by (simp add: escapeQuotes_def)
  also have "\<dots> = percent_byte ch @ unquote (escapeQuotes s)"
    by (rule unquote_escape_byte)
  finally show ?case
    using Cons.IH by (simp add: percent_crlf_def)
qed

lemma percent_crlf_plain:
  "CHR 0x0D \<notin> set s \<Longrightarrow> CHR 0x0A \<notin> set s \<Longrightarrow> percent_crlf s = s"
  by (induction s) (auto simp: percent_crlf_def percent_byte_def)

lemma sent_filename_eq: "sent_filename p = percent_crlf (FileName p)"
  by (simp add: sent_filename_def unquote_escapeQuotes)


lemma one_part_sent:
  assumes "map FieldName ps = [''file'']" and "map FileName ps = [name]"
  shows \<open>map Content_Disposition ps =
           [''form-data; name="file"; filename="'' @ escapeQuotes name @ ''"'']
         \<and> map sent_filename ps = [percent_crlf name]
         \<and> (CHR 0x0D \<notin> set name \<and> CHR 0x0A \<notin> set name \<longrightarrow>
              map sent_filename ps = [name])\<close>
proof -
  from assms obtain p where "ps = [p]" and "FieldName p = ''file''" and "FileName p = name"
    by (cases ps) auto
  then show ?thesis
    by (simp add: Content_Disposition_def sent_filename_eq percent_crlf_plain
        escapeQuotes_def escape_byte_def)
qed

subsection \<open>Claims about the relay\<close>

text \<open>
  Claim C1. Whenever the provider answers an upload with status 200 and a body that
  \<^verbatim>\<open>json.Unmarshal\<close> decodes, the relay replies with status 200 and the single key
  \<^verbatim>\<open>ipfs_url\<close>, whose value is the gateway prefix \<^verbatim>\<open>https://ipfs.io/ipfs/\<close> followed by
  the decoded \<^verbatim>\<open>IpfsHash\<close>; for the hash \<^verbatim>\<open>Qm123\<close> that is
  \<^verbatim>\<open>https://ipfs.io/ipfs/Qm123\<close>. That the provider answered at all says that the request
  carried a file field that could be opened and read.
\<close>

theorem gateway_url:
  assumes "Inr resp \<in> snd ` set (snd (upload_handler L W c))"
    and "StatusCode resp = 200"
    and "Unmarshal L (rdata (RespBody resp)) = Inr pinataRes"
  shows "fst (upload_handler L W c) =
           \<lparr>status = 200,
            json = [''ipfs_url'' \<mapsto> ''https://ipfs.io/ipfs/'' @ IpfsHash pinataRes]\<rparr>
         \<and> (IpfsHash pinataRes = ''Qm123'' \<longrightarrow>
              fst (upload_handler L W c) =
                \<lparr>status = 200, json = [''ipfs_url'' \<mapsto> ''https://ipfs.io/ipfs/Qm123'']\<rparr>)"
  using provider_answer_cases[OF assms(1)] assms(2,3) by simp

text \<open>
  The stub provider answers 200 with the body \<^verbatim>\<open>{"IpfsHash":"Qm123"}\<close>.
\<close>

theorem gateway_url_witness:
  \<open>Inr (answer 200 ''{"IpfsHash":"Qm123"}'')
      \<in> snd ` set (snd (upload_handler test_lib
                         (test_world (Inr (answer 200 ''{"IpfsHash":"Qm123"}'')))
                         (test_ctx (Inr cat_png))))
   \<and> fst (upload_handler test_lib (test_world (Inr (answer 200 ''{"IpfsHash":"Qm123"}'')))
            (test_ctx (Inr cat_png))) =
       \<lparr>status = 200, json = [''ipfs_url'' \<mapsto> ''https://ipfs.io/ipfs/Qm123'']\<rparr>\<close>
proof -
  let ?a = \<open>answer 200 ''{"IpfsHash":"Qm123"}''\<close>
  have sent: "Inr ?a \<in> snd ` set (snd (upload_handler test_lib (test_world (Inr ?a))
                                          (test_ctx (Inr cat_png))))"
    by (simp add: relay_defs test_defs)
  have ok: "StatusCode ?a = 200"
    by (simp add: answer_def)
  have decoded: "Unmarshal test_lib (rdata (RespBody ?a)) = Inr \<lparr>IpfsHash = ''Qm123''\<rparr>"
    by (simp add: test_defs)
  from gateway_url[OF sent ok decoded] sent show ?thesis
    by simp
qed

text \<open>
  Claim C2. When \<^verbatim>\<open>c.FormFile("file")\<close> fails (no field of that name, or a form that
  cannot be read), the relay replies with status 400 and \<^verbatim>\<open>{"error": "File missing"}\<close>,
  and makes no call to the provider.
\<close>

theorem missing_file_400:
  assumes "FormFile c ''file'' = Inl err"
  shows "upload_handler L W c =
           (\<lparr>status = 400, json = [''error'' \<mapsto> ''File missing'']\<rparr>, [])"
  using assms by (simp add: upload_handler_def StatusBadRequest_def)

theorem missing_file_400_witness:
  "upload_handler test_lib (test_world (Inr (answer 200 ''{}''))) no_file_ctx =
     (\<lparr>status = 400, json = [''error'' \<mapsto> ''File missing'']\<rparr>, [])"
proof -
  have "FormFile no_file_ctx ''file'' =
          Inl ''there is no uploaded file associated with the given key''"
    by (simp add: no_file_ctx_def)
  from missing_file_400[OF this] show ?thesis .
qed

text \<open>
  Claim C3, as stated: when the provider answers with a status other than 200 and a body
  \<open>B\<close>, the error detail of the relay's reply contains \<open>B\<close> verbatim. The body need not be
  valid UTF-8 and a JSON string cannot carry it then: for the three bytes 62 FF 6D the client
  reads \<^verbatim>\<open>pinata error: b\<close>, U+FFFD, \<^verbatim>\<open>m\<close>, in which the byte FF does not occur.
\<close>

theorem upstream_error_detail_counterexample:
  "Inr (answer 500 [CHR 0x62, CHR 0xFF, CHR 0x6D])
      \<in> snd ` set (snd (upload_handler test_lib
                         (test_world (Inr (answer 500 [CHR 0x62, CHR 0xFF, CHR 0x6D])))
                         (test_ctx (Inr cat_png))))
   \<and> delivered (fst (upload_handler test_lib
                       (test_world (Inr (answer 500 [CHR 0x62, CHR 0xFF, CHR 0x6D])))
                       (test_ctx (Inr cat_png)))) ''error'' =
       Some (''pinata error: b'' @ [CHR 0xEF, CHR 0xBF, CHR 0xBD] @ ''m'')
   \<and> \<not> sublist [CHR 0x62, CHR 0xFF, CHR 0x6D]
         (''pinata error: b'' @ [CHR 0xEF, CHR 0xBF, CHR 0xBD] @ ''m'')"
  by (simp add: relay_defs test_defs delivered_def byte_def replacement_def
      sublist_Cons_right)

text \<open>
  Claim C3, amended: when the provider answers with a status other than 200 and a body
  \<open>B\<close>, the relay replies with status 500 after exactly one call to the provider, the value
  it hands to \<^verbatim>\<open>c.JSON\<close> under the single key \<^verbatim>\<open>error\<close> is \<^verbatim>\<open>pinata error: \<close>
  followed by \<open>B\<close> unchanged, and the error detail the client reads is
  \<^verbatim>\<open>pinata error: \<close> followed by \<open>B\<close> with every byte that is not part of a valid UTF-8
  sequence replaced by U+FFFD; it contains \<open>B\<close> verbatim whenever \<open>B\<close> is valid UTF-8.
\<close>

theorem upstream_error_detail:
  assumes "Inr resp \<in> snd ` set (snd (upload_handler L W c))"
    and "StatusCode resp \<noteq> 200"
  shows "fst (upload_handler L W c) =
           \<lparr>status = 500,
            json = [''error'' \<mapsto> ''pinata error: '' @ rdata (RespBody resp)]\<rparr>
         \<and> length (snd (upload_handler L W c)) = 1
         \<and> delivered (fst (upload_handler L W c)) ''error'' =
             Some (''pinata error: '' @ json_coerce (rdata (RespBody resp)))
         \<and> (ValidString (rdata (RespBody resp)) \<longrightarrow>
              delivered (fst (upload_handler L W c)) ''error'' =
                Some (''pinata error: '' @ rdata (RespBody resp))
              \<and> sublist (rdata (RespBody resp))
                   (''pinata error: '' @ rdata (RespBody resp)))"
proof -
  let ?B = "rdata (RespBody resp)"
  from provider_answer_cases[OF assms(1)] assms(2)
  have reply: "fst (upload_handler L W c) =
                 \<lparr>status = 500, json = [''error'' \<mapsto> ''pinata error: '' @ ?B]\<rparr>"
    and once: "length (snd (upload_handler L W c)) = 1"
    by simp_all
  have read: "delivered (fst (upload_handler L W c)) ''error'' =
                Some (''pinata error: '' @ json_coerce ?B)"
    by (simp only: reply delivered_def json_coerce_pinata_error[symmetric]) simp
  have part: "sublist ?B (''pinata error: '' @ ?B)"
    by (rule sublist_append_leftI)
  from reply once read part show ?thesis
    by (simp add: json_coerce_valid)
qed

text \<open>The stub provider answers 500 with the body \<^verbatim>\<open>boom\<close>.\<close>

theorem upstream_error_detail_witness:
  "Inr (answer 500 ''boom'')
      \<in> snd ` set (snd (upload_handler test_lib (test_world (Inr (answer 500 ''boom'')))
                         (test_ctx (Inr cat_png))))
   \<and> ValidString ''boom''
   \<and> fst (upload_handler test_lib (test_world (Inr (answer 500 ''boom'')))
            (test_ctx (Inr cat_png))) =
       \<lparr>status = 500, json = [''error'' \<mapsto> ''pinata error: boom'']\<rparr>
   \<and> length (snd (upload_handler test_lib (test_world (Inr (answer 500 ''boom'')))
                  (test_ctx (Inr cat_png)))) = 1
   \<and> delivered (fst (upload_handler test_lib (test_world (Inr (answer 500 ''boom'')))
                       (test_ctx (Inr cat_png)))) ''error'' = Some ''pinata error: boom''"
proof -
  let ?h = "upload_handler test_lib (test_world (Inr (answer 500 ''boom'')))
              (test_ctx (Inr cat_png))"
  have sent: "Inr (answer 500 ''boom'') \<in> snd ` set (snd ?h)"
    by (simp add: relay_defs test_defs)
  have bad: "StatusCode (answer 500 ''boom'') \<noteq> 200"
    by (simp add: answer_def)
  have valid: "ValidString ''boom''"
    by (simp add: byte_def)
  have body: "rdata (RespBody (answer 500 ''boom'')) = ''boom''"
    by (simp add: answer_def)
  note run = upstream_error_detail[OF sent bad, unfolded body]
  from run have reply: "fst ?h = \<lparr>status = 500, json = [''error'' \<mapsto> ''pinata error: '' @ ''boom'']\<rparr>"
    and once: "length (snd ?h) = 1"
    by blast+
  from run valid have read: "delivered (fst ?h) ''error'' = Some (''pinata error: '' @ ''boom'')"
    by blast
  from sent valid reply once read show ?thesis
    by simp
qed



text \<open>
  Claim C5, as stated: when the received file field cannot be opened, the error message of
  the reply is \<^verbatim>\<open>file open failed\<close>. The handler's literal starts with a capital letter,
  so the message is a different string.
\<close>

theorem open_failed_message_counterexample:
  "json (fst (upload_handler test_lib (test_world (Inr (answer 200 ''{}'')))
                (test_ctx (Inl ''open /tmp/multipart-1: no such file or directory''))))
     ''error'' \<noteq> Some ''file open failed''"
  by (simp add: relay_defs test_defs)

text \<open>
  Claim C5, amended: when the received file field cannot be opened, the relay replies with
  status 500 and \<^verbatim>\<open>{"error": "File open failed"}\<close>, and makes no call to the provider.
\<close>

theorem open_failed_500:
  assumes "FormFile c ''file'' = Inr fileHeader"
    and "Open fileHeader = Inl err"
  shows "upload_handler L W c =
           (\<lparr>status = 500, json = [''error'' \<mapsto> ''File open failed'']\<rparr>, [])"
  using assms by (simp add: upload_handler_def StatusInternalServerError_def)

theorem open_failed_500_witness:
  "upload_handler test_lib (test_world (Inr (answer 200 ''{}'')))
     (test_ctx (Inl ''open /tmp/multipart-1: no such file or directory'')) =
   (\<lparr>status = 500, json = [''error'' \<mapsto> ''File open failed'']\<rparr>, [])"
proof -
  let ?e = "''open /tmp/multipart-1: no such file or directory''"
  have field: "FormFile (test_ctx (Inl ?e)) ''file'' = Inr \<lparr>Filename = ''cat.png'', Open = Inl ?e\<rparr>"
    by (simp add: test_ctx_def)
  have closed: "Open \<lparr>Filename = ''cat.png'', Open = Inl ?e\<rparr> = Inl ?e"
    by simp
  from open_failed_500[OF field closed] show ?thesis .
qed

text \<open>
  Claim C6. Every reply of the handler is one of two variants: the single key
  \<^verbatim>\<open>ipfs_url\<close> (with status 200) or the single key \<^verbatim>\<open>error\<close> (with status 400 or
  500); no reply has both keys.
\<close>

theorem reply_two_variants:
  "(dom (json (fst (upload_handler L W c))) = {''ipfs_url''}
      \<and> status (fst (upload_handler L W c)) = 200
    \<or> dom (json (fst (upload_handler L W c))) = {''error''}
      \<and> status (fst (upload_handler L W c)) \<in> {400, 500})
   \<and> \<not> (''ipfs_url'' \<in> dom (json (fst (upload_handler L W c)))
          \<and> ''error'' \<in> dom (json (fst (upload_handler L W c))))"
  by (simp add: upload_handler_def StatusBadRequest_def StatusInternalServerError_def
      split: sum.splits prod.splits)

text \<open>
  Claim C10. When the provider answers with status 200 and the decoded \<^verbatim>\<open>IpfsHash\<close> is
  empty (the field is absent from the JSON object, or empty), the relay still replies with
  status 200 and \<^verbatim>\<open>{"ipfs_url": "https://ipfs.io/ipfs/"}\<close>.
\<close>

theorem empty_hash_accepted:
  assumes "Inr resp \<in> snd ` set (snd (upload_handler L W c))"
    and "StatusCode resp = 200"
    and "Unmarshal L (rdata (RespBody resp)) = Inr pinataRes"
    and "IpfsHash pinataRes = ''''"
  shows "fst (upload_handler L W c) =
           \<lparr>status = 200, json = [''ipfs_url'' \<mapsto> ''https://ipfs.io/ipfs/'']\<rparr>"
  using provider_answer_cases[OF assms(1)] assms(2,3,4) by simp

text \<open>The stub provider answers 200 with the body \<^verbatim>\<open>{}\<close>.\<close>

theorem empty_hash_accepted_witness:
  "Inr (answer 200 ''{}'')
      \<in> snd ` set (snd (upload_handler test_lib (test_world (Inr (answer 200 ''{}'')))
                         (test_ctx (Inr cat_png))))
   \<and> fst (upload_handler test_lib (test_world (Inr (answer 200 ''{}''))) (test_ctx (Inr cat_png))) =
       \<lparr>status = 200, json = [''ipfs_url'' \<mapsto> ''https://ipfs.io/ipfs/'']\<rparr>"
proof -
  let ?a = "answer 200 ''{}''"
  have sent: "Inr ?a \<in> snd ` set (snd (upload_handler test_lib (test_world (Inr ?a))
                                          (test_ctx (Inr cat_png))))"
    by (simp add: relay_defs test_defs)
  have ok: "StatusCode ?a = 200"
    by (simp add: answer_def)
  have decoded: "Unmarshal test_lib (rdata (RespBody ?a)) = Inr \<lparr>IpfsHash = ''''\<rparr>"
    by (simp add: test_defs)
  have empty: "IpfsHash \<lparr>IpfsHash = ''''\<rparr> = ''''"
    by simp
  from empty_hash_accepted[OF sent ok decoded empty] sent show ?thesis
    by simp
qed

subsection \<open>Claims about the file name and the uploader\<close>

text \<open>
  Claim C7, as stated: the file name in the outbound multipart field equals, byte for byte,
  the received file name (relay) and the base name of the entered path (uploader), for every
  name. A name with a line feed leaves the relay with \<^verbatim>\<open>%0A\<close> in its place, and a name
  with a carriage return leaves the uploader with \<^verbatim>\<open>%0D\<close> in its place.
\<close>

theorem filename_sent_counterexample:
  \<open>map Content_Disposition
     (ReqBody (fst (hd (snd (upload_handler test_lib (test_world (Inr (answer 200 ''{}'')))
                               (named_ctx (''a'' @ [CHR 0x0A] @ ''b.png''))))))) =
     [''form-data; name="file"; filename="a%0Ab.png"'']
   \<and> map sent_filename
     (ReqBody (fst (hd (snd (upload_handler test_lib (test_world (Inr (answer 200 ''{}'')))
                               (named_ctx (''a'' @ [CHR 0x0A] @ ''b.png''))))))) =
     [''a%0Ab.png'']
   \<and> ''a%0Ab.png'' \<noteq> ''a'' @ [CHR 0x0A] @ ''b.png''
   \<and> map Content_Disposition
     (ReqBody (hd (requests (snd (cli_iteration test_lib (open_world (Inr (answer 200 ''ok'')))
                                   (entered (''a'' @ [CHR 0x0D] @ ''b.png''))))))) =
     [''form-data; name="file"; filename="a%0Db.png"'']
   \<and> map sent_filename
     (ReqBody (hd (requests (snd (cli_iteration test_lib (open_world (Inr (answer 200 ''ok'')))
                                   (entered (''a'' @ [CHR 0x0D] @ ''b.png''))))))) =
     [''a%0Db.png'']
   \<and> ''a%0Db.png'' \<noteq> ''a'' @ [CHR 0x0D] @ ''b.png''\<close>
  by (simp add: relay_defs cli_defs test_defs Content_Disposition_def sent_filename_def
      escapeQuotes_def escape_byte_def)

text \<open>
  Claim C7, amended: the file name the relay hands to \<^verbatim>\<open>CreateFormFile\<close> is the
  \<^verbatim>\<open>Filename\<close> of the received file header, unchanged, and the one the uploader hands to
  it is \<^verbatim>\<open>filepath.Base\<close> of the trimmed path that was entered; in both requests the part
  is the only one and its field is named \<^verbatim>\<open>file\<close>. The header of the part carries that
  name through \<^verbatim>\<open>escapeQuotes\<close>, and the receiver reads it with every CR and LF replaced by
  \<^verbatim>\<open>%0D\<close> and \<^verbatim>\<open>%0A\<close>: for every name without CR and LF the name read from the
  outbound field equals it byte for byte.
\<close>

theorem filename_sent:
  \<open>(FormFile c ''file'' = Inr fileHeader \<and> x \<in> set (snd (upload_handler L W c)) \<longrightarrow>
      map FieldName (ReqBody (fst x)) = [''file'']
      \<and> map FileName (ReqBody (fst x)) = [Filename fileHeader]
      \<and> map Content_Disposition (ReqBody (fst x)) =
          [''form-data; name="file"; filename="'' @ escapeQuotes (Filename fileHeader) @ ''"'']
      \<and> map sent_filename (ReqBody (fst x)) = [percent_crlf (Filename fileHeader)]
      \<and> (CHR 0x0D \<notin> set (Filename fileHeader) \<and> CHR 0x0A \<notin> set (Filename fileHeader) \<longrightarrow>
           map sent_filename (ReqBody (fst x)) = [Filename fileHeader]))
   \<and> (HTTP req ans \<in> set (snd (cli_iteration L W line)) \<longrightarrow>
      map FieldName (ReqBody req) = [''file'']
      \<and> map FileName (ReqBody req) = [Base L (TrimSpace L line)]
      \<and> map Content_Disposition (ReqBody req) =
          [''form-data; name="file"; filename="'' @ escapeQuotes (Base L (TrimSpace L line))
             @ ''"'']
      \<and> map sent_filename (ReqBody req) = [percent_crlf (Base L (TrimSpace L line))]
      \<and> (CHR 0x0D \<notin> set (Base L (TrimSpace L line))
           \<and> CHR 0x0A \<notin> set (Base L (TrimSpace L line)) \<longrightarrow>
           map sent_filename (ReqBody req) = [Base L (TrimSpace L line)]))\<close>
  (is "(?relay \<longrightarrow> ?sent_on) \<and> (?uploader \<longrightarrow> ?posted)")
proof (rule conjI; rule impI)
  assume ?relay
  then have parts: "map FieldName (ReqBody (fst x)) = [''file'']
                    \<and> map FileName (ReqBody (fst x)) = [Filename fileHeader]"
    using upload_handler_parts[of c fileHeader x L W] by blast
  note header = one_part_sent[OF parts[THEN conjunct1] parts[THEN conjunct2]]
  show ?sent_on
    by (rule conjI[OF parts[THEN conjunct1] conjI[OF parts[THEN conjunct2] header]])
next
  assume ?uploader
  then have parts: "map FieldName (ReqBody req) = [''file'']
                    \<and> map FileName (ReqBody req) = [Base L (TrimSpace L line)]"
    by (rule cli_iteration_parts)
  note header = one_part_sent[OF parts[THEN conjunct1] parts[THEN conjunct2]]
  show ?posted
    by (rule conjI[OF parts[THEN conjunct1] conjI[OF parts[THEN conjunct2] header]])
qed

theorem filename_sent_witness:
  "map sent_filename (ReqBody (fst (hd (snd (upload_handler test_lib
       (test_world (Inr (answer 200 ''{}''))) (test_ctx (Inr cat_png))))))) = [''cat.png'']
   \<and> snd (cli_iteration test_lib (test_world (Inr (answer 200 ''ok'')))
          (entered '' /tmp/cat.png'')) =
       [Stdout prompt,
        HTTP upload_request (Inr (answer 200 ''ok'')),
        Stdout (''Response from server: ok'' @ [CHR 0x0A])]
   \<and> map sent_filename (ReqBody upload_request) = [''cat.png'']"
proof -
  let ?W = "test_world (Inr (answer 200 ''{}''))"
  let ?c = "test_ctx (Inr cat_png)"
  let ?V = "test_world (Inr (answer 200 ''ok''))"
  have field: "FormFile ?c ''file'' = Inr \<lparr>Filename = ''cat.png'', Open = Inr cat_png\<rparr>"
    by (simp add: test_ctx_def)
  have log: "snd (upload_handler test_lib ?W ?c) \<noteq> []"
    by (simp add: relay_defs test_defs)
  then have sent: "hd (snd (upload_handler test_lib ?W ?c))
                     \<in> set (snd (upload_handler test_lib ?W ?c))"
    by simp
  let ?fh = "\<lparr>Filename = ''cat.png'', Open = Inr cat_png\<rparr>"
  have plain: "CHR 0x0D \<notin> set (Filename ?fh) \<and> CHR 0x0A \<notin> set (Filename ?fh)"
    by simp
  have base: "Base test_lib (TrimSpace test_lib (entered '' /tmp/cat.png'')) = ''cat.png''"
    by (simp add: test_defs)
  then have plain_base:
    "CHR 0x0D \<notin> set (Base test_lib (TrimSpace test_lib (entered '' /tmp/cat.png'')))
     \<and> CHR 0x0A \<notin> set (Base test_lib (TrimSpace test_lib (entered '' /tmp/cat.png'')))"
    by simp
  have run: "snd (cli_iteration test_lib ?V (entered '' /tmp/cat.png'')) =
       [Stdout prompt, HTTP upload_request (Inr (answer 200 ''ok'')),
        Stdout (''Response from server: ok'' @ [CHR 0x0A])]"
    by (simp add: cli_defs test_defs)
  then have posted: "HTTP upload_request (Inr (answer 200 ''ok''))
                       \<in> set (snd (cli_iteration test_lib ?V (entered '' /tmp/cat.png'')))"
    by simp
  from filename_sent[where c = ?c and L = test_lib and W = ?W and fileHeader = ?fh
      and x = "hd (snd (upload_handler test_lib ?W ?c))", THEN conjunct1] field sent plain
  have "map sent_filename (ReqBody (fst (hd (snd (upload_handler test_lib ?W ?c))))) =
          [Filename ?fh]"
    by blast
  then have relay:
    "map sent_filename (ReqBody (fst (hd (snd (upload_handler test_lib ?W ?c))))) =
       [''cat.png'']"
    by simp
  from filename_sent[where L = test_lib and W = ?V and req = upload_request
      and ans = "Inr (answer 200 ''ok'')" and line = "entered '' /tmp/cat.png''",
      THEN conjunct2] posted plain_base
  have "map sent_filename (ReqBody upload_request) =
          [Base test_lib (TrimSpace test_lib (entered '' /tmp/cat.png''))]"
    by blast
  with base have "map sent_filename (ReqBody upload_request) = [''cat.png'']"
    by simp
  with relay run show ?thesis
    by simp
qed

text \<open>
  Claim C8. On a line that is \<^verbatim>\<open>exit\<close> after trimming, the iteration prints the prompt and
  the farewell and breaks, with no HTTP request, and the loop returns; an iteration breaks
  on no other line, and the loop returns if and only if some line still to be read trims to
  \<^verbatim>\<open>exit\<close>.
\<close>

theorem exit_sentinel:
  "(TrimSpace L ln = ''exit'' \<longrightarrow>
      cli_iteration L W ln =
        (Break, [Stdout prompt, Stdout (fmt_Println [''Exiting CLI uploader.''])]))
   \<and> (TrimSpace L (stdin i) = ''exit'' \<longrightarrow>
      cliUpload L Ws stdin i =
        Some [Stdout prompt, Stdout (fmt_Println [''Exiting CLI uploader.''])])
   \<and> (fst (cli_iteration L W ln) = Break \<longleftrightarrow> TrimSpace L ln = ''exit'')
   \<and> ((\<exists>t. cliUpload L Ws stdin i = Some t) \<longleftrightarrow> (\<exists>n\<ge>i. TrimSpace L (stdin n) = ''exit''))"
proof (intro conjI impI)
  assume "TrimSpace L ln = ''exit''"
  then show "cli_iteration L W ln =
        (Break, [Stdout prompt, Stdout (fmt_Println [''Exiting CLI uploader.''])])"
    by (simp add: cli_iteration_def)
next
  assume "TrimSpace L (stdin i) = ''exit''"
  then show "cliUpload L Ws stdin i =
        Some [Stdout prompt, Stdout (fmt_Println [''Exiting CLI uploader.''])]"
    by (rule cliUpload_exit)
next
  show "fst (cli_iteration L W ln) = Break \<longleftrightarrow> TrimSpace L ln = ''exit''"
    by (rule cli_iteration_Break_iff)
next
  show "(\<exists>t. cliUpload L Ws stdin i = Some t) \<longleftrightarrow> (\<exists>n\<ge>i. TrimSpace L (stdin n) = ''exit'')"
  proof
    assume "\<exists>t. cliUpload L Ws stdin i = Some t"
    then show "\<exists>n\<ge>i. TrimSpace L (stdin n) = ''exit''"
      using cliUpload_only_exit by blast
  next
    assume "\<exists>n\<ge>i. TrimSpace L (stdin n) = ''exit''"
    then obtain n where "i \<le> n" and "TrimSpace L (stdin n) = ''exit''"
      by blast
    then have "TrimSpace L (stdin (i + (n - i))) = ''exit''"
      by simp
    then show "\<exists>t. cliUpload L Ws stdin i = Some t"
      by (rule cliUpload_terminates)
  qed
qed

text \<open>
  Three inputs: the sentinel with blanks around it; a path that does not exist, entered
  again and again; and an input that has ended, where every read returns the empty string.
  The last two runs never return.
\<close>

theorem exit_sentinel_witness:
  "cliUpload test_lib (\<lambda>i. test_world (Inl ''connection refused''))
      (\<lambda>n. entered ''  exit '') 0 =
     Some [Stdout prompt, Stdout (''Exiting CLI uploader.'' @ [CHR 0x0A])]
   \<and> cliUpload test_lib (\<lambda>i. test_world (Inl ''connection refused''))
      (\<lambda>n. entered ''/nonexistent'') 0 = None
   \<and> cliUpload test_lib (\<lambda>i. test_world (Inl ''connection refused''))
      (\<lambda>n. '''') 0 = None"
proof -
  let ?Ws = "\<lambda>i::nat. test_world (Inl ''connection refused'')"
  have a: "TrimSpace test_lib (entered ''  exit '') = ''exit''"
    by (simp add: test_defs entered_def)
  have b: "\<not> (\<exists>n\<ge>0. TrimSpace test_lib ((\<lambda>n::nat. entered ''/nonexistent'') n) = ''exit'')"
    by (simp add: test_defs entered_def)
  have c: "\<not> (\<exists>n\<ge>0. TrimSpace test_lib ((\<lambda>n::nat. '''') n) = ''exit'')"
    by (simp add: test_defs)
  from exit_sentinel[of test_lib "entered ''  exit ''" "?Ws 0" "\<lambda>n. entered ''  exit ''" 0 ?Ws] a
  have 1: "cliUpload test_lib ?Ws (\<lambda>n. entered ''  exit '') 0 =
             Some [Stdout prompt, Stdout (''Exiting CLI uploader.'' @ [CHR 0x0A])]"
    by simp
  from exit_sentinel[of test_lib "entered ''/nonexistent''" "?Ws 0" "\<lambda>n. entered ''/nonexistent''" 0 ?Ws] b
  have 2: "cliUpload test_lib ?Ws (\<lambda>n. entered ''/nonexistent'') 0 = None"
    by simp
  from exit_sentinel[of test_lib "''''" "?Ws 0" "\<lambda>n. ''''" 0 ?Ws] c
  have 3: "cliUpload test_lib ?Ws (\<lambda>n. '''') 0 = None"
    by simp
  from 1 2 3 show ?thesis by simp
qed



end
